theory Spec2Isabelle
  imports Complex_Main "HOL-Library.Word" "HOL-Library.Monad_Syntax"
begin

section \<open>Shared vocabulary: errors, options, cursors, slices\<close>

text \<open>
  Modelled from the spec: the error kinds of section 7. The source files construct no
  error themselves; every error they return is the one handed back by the transport.
\<close>

datatype error = ConfigurationError string | TransportError string | LogicError string

text \<open>
  Modelled from the spec: the type \<open>Options\<close> is declared outside the source files
  at hand. Section 3 of the spec gives it a page size (\<open>Limit\<close>, zero when unset), a
  continuation token (\<open>Offset\<close>, empty for "start") and a field selection list.
  \<open>AllWorkspaces\<close> sets \<open>Limit\<close> and \<open>Offset\<close> and leaves the rest at zero.
\<close>

record Options =
  Limit :: int
  Offset :: string
  Fields :: "string list"

text \<open>
  Modelled from the spec: \<open>NextPage\<close>, the cursor returned by collection endpoints.
  The source reads its \<open>Offset\<close> only. A nil cursor is \<open>None\<close>.
\<close>

record NextPage =
  NextPage_Offset :: string

text \<open>
  A Go slice is either nil or a sequence of elements: \<open>None\<close> is the nil slice,
  \<open>Some []\<close> the empty slice that is not nil.
\<close>

type_synonym 'a slice = "'a list option"

definition elems :: "'a slice \<Rightarrow> 'a list" where
  "elems s = (case s of None \<Rightarrow> [] | Some xs \<Rightarrow> xs)"

text \<open>
  \<open>append(s, t...)\<close> of Go: with nothing to add the first slice is returned as it is
  (a nil slice stays nil, an empty one stays empty), otherwise the result holds the
  elements of both.
\<close>

definition go_append :: "'a slice \<Rightarrow> 'a slice \<Rightarrow> 'a slice" where
  "go_append s t = (if elems t = [] then s else Some (elems s @ elems t))"

section \<open>The transport\<close>

text \<open>
  The methods \<open>get\<close>, \<open>post\<close>, \<open>put\<close> and \<open>delete\<close> of \<open>Client\<close> do the HTTP round
  trip; they are the external collaborator of section 6 of the spec. A request is what
  the source hands to them: the path, and the option list of a GET or the body of a
  POST or PUT (a pointer, so possibly nil). The body is a \<open>StoryBase\<close> of stories.go,
  the editable text of a story. The calls of \<open>trace\<close> and \<open>info\<close> write diagnostics
  only and are left out.
\<close>

record StoryBase =
  Text :: string
  HTMLText :: string
  IsPinned :: bool

datatype request =
    GET string "Options list"
  | POST string "StoryBase option"
  | PUT string "StoryBase option"
  | DELETE string

text \<open>
  What a round trip leaves behind: the value decoded into the target (\<open>data\<close>), the
  cursor and the error. The type of the target differs from call to call, so the reply
  is polymorphic in it.
\<close>

record 'd reply =
  data :: 'd
  cursor :: "NextPage option"
  err :: "error option"

text \<open>
  A client is a deterministic collaborator: its answer may depend on the request and on
  every request made before (\<open>respond\<close>), and it keeps the log of the requests that
  reached it (\<open>calls\<close>). The number of network calls made is the growth of the log.
\<close>

record 'd Client =
  calls :: "request list"
  respond :: "request list \<Rightarrow> request \<Rightarrow> 'd reply"

definition roundtrip :: "'d Client \<Rightarrow> request \<Rightarrow> 'd reply \<times> 'd Client" where
  "roundtrip c req = (respond c (calls c) req, c\<lparr>calls := calls c @ [req]\<rparr>)"

section \<open>workspaces.go\<close>

text \<open>
  \<open>Workspace\<close> embeds \<open>Expandable\<close> (the identifier, the flag \<open>expanded\<close> and the
  back-reference to the client) and \<open>WithName\<close>. The back-reference is not a field of
  the model: the client is passed to each operation and returned by it.
\<close>

record Workspace =
  ID :: int
  expanded :: bool
  Name :: string
  IsOrganization :: bool
  EmailDomains :: "string slice"

text \<open>\<open>Client.Workspace\<close>: an unexpanded handle with the given identifier.\<close>

definition Workspace_of_id :: "int \<Rightarrow> Workspace" where
  "Workspace_of_id i =
     \<lparr>ID = i, expanded = False, Name = [], IsOrganization = False, EmailDomains = None\<rparr>"

text \<open>Decimal rendering of an integer, as the verb \<open>%d\<close> of \<open>fmt.Sprintf\<close> prints it.\<close>

fun digits :: "nat \<Rightarrow> string" where
  "digits n =
     (if n < 10 then [''0123456789'' ! n]
      else digits (n div 10) @ [''0123456789'' ! (n mod 10)])"

declare digits.simps [simp del]

definition sprint_d :: "int \<Rightarrow> string" where
  "sprint_d i = (if i < 0 then CHR ''-'' # digits (nat (- i)) else digits (nat i))"

text \<open>
  Modelled from the spec: what \<open>Client.get\<close>, which is not among the source files, does
  to a single resource passed as its target. Section 4.2: the response is decoded into
  the receiver in place and \<open>Expanded\<close> is set on success; on failure the flag stays as
  it was. Section 3: the identifier does not change after construction.
\<close>

definition decode_into :: "Workspace reply \<Rightarrow> Workspace \<Rightarrow> Workspace" where
  "decode_into r w =
     (case err r of
        Some e \<Rightarrow> w
      | None \<Rightarrow> w\<lparr>expanded := True, Name := Name (data r),
                 IsOrganization := IsOrganization (data r),
                 EmailDomains := EmailDomains (data r)\<rparr>)"

text \<open>
  \<open>Expand\<close>: nothing happens on an expanded workspace; otherwise one GET of
  \<open>/workspaces/<ID>\<close> with the receiver as target, and the error of that call is the
  result. The receiver after the call and the client are returned as well.
\<close>

definition Expand :: "Workspace Client \<Rightarrow> Workspace \<Rightarrow> (Workspace \<times> error option) \<times> Workspace Client" where
  "Expand c w =
     (if expanded w then ((w, None), c)
      else (case roundtrip c (GET (''/workspaces/'' @ sprint_d (ID w)) []) of
              (r, c') \<Rightarrow> ((decode_into r w, err r), c')))"

text \<open>A caller that calls \<open>Expand\<close> twice on the same object; both errors are kept.\<close>

definition Expand_twice ::
  "Workspace Client \<Rightarrow> Workspace \<Rightarrow> (Workspace \<times> error option \<times> error option) \<times> Workspace Client" where
  "Expand_twice c w =
     (case Expand c w of
        ((w1, e1), c1) \<Rightarrow> (case Expand c1 w1 of ((w2, e2), c2) \<Rightarrow> ((w2, e1, e2), c2)))"

text \<open>
  \<open>Workspaces\<close>: one GET of \<open>/workspaces\<close> with the options as given; the target is a
  nil slice, and the slice after decoding, the cursor and the error are returned.
\<close>

definition Workspaces ::
  "Workspace slice Client \<Rightarrow> Options list \<Rightarrow>
     (Workspace slice \<times> NextPage option \<times> error option) \<times> Workspace slice Client" where
  "Workspaces c options =
     (case roundtrip c (GET ''/workspaces'' options) of
        (r, c') \<Rightarrow> ((data r, cursor r, err r), c'))"

text \<open>
  The loop of \<open>AllWorkspaces\<close>. Its state is the cursor \<open>nextPage\<close>, the accumulator
  \<open>allWorkspaces\<close> and the client. Nothing bounds the number of iterations, so the loop
  is a partial function: \<open>None\<close> stands for a walk that never returns.
\<close>

partial_function (option) AllWorkspaces_loop ::
  "Options list \<Rightarrow> NextPage option \<Rightarrow> Workspace slice \<Rightarrow> Workspace slice Client \<Rightarrow>
     ((Workspace slice \<times> error option) \<times> Workspace slice Client) option" where
  "AllWorkspaces_loop options nextPage allWorkspaces c =
     (case nextPage of
        None \<Rightarrow> Some ((allWorkspaces, None), c)
      | Some np \<Rightarrow>
          (case Workspaces c (\<lparr>Limit = 100, Offset = NextPage_Offset np, Fields = []\<rparr> # options) of
             ((workspaces, nextPage', e), c') \<Rightarrow>
               (if e \<noteq> None then Some ((None, e), c')
                else AllWorkspaces_loop options nextPage' (go_append allWorkspaces workspaces) c')))"

definition AllWorkspaces ::
  "Workspace slice Client \<Rightarrow> Options list \<Rightarrow>
     ((Workspace slice \<times> error option) \<times> Workspace slice Client) option" where
  "AllWorkspaces c options =
     AllWorkspaces_loop options (Some \<lparr>NextPage_Offset = []\<rparr>) (Some []) c"

subsection \<open>A scripted transport\<close>

text \<open>
  The mock transport of the testable properties: it answers the n-th request with the
  n-th reply of a fixed script, whatever the request says, and with a default reply once
  the script is used up.
\<close>

definition scripted_respond :: "'d reply list \<Rightarrow> 'd reply \<Rightarrow> request list \<Rightarrow> request \<Rightarrow> 'd reply" where
  "scripted_respond pages dflt hist req =
     (if length hist < length pages then pages ! length hist else dflt)"

definition scripted :: "'d reply list \<Rightarrow> 'd reply \<Rightarrow> 'd Client" where
  "scripted pages dflt = \<lparr>calls = [], respond = scripted_respond pages dflt\<rparr>"

text \<open>A successful reply, and a successful reply that announces a further page.\<close>

definition page :: "'d \<Rightarrow> NextPage option \<Rightarrow> 'd reply" where
  "page ws np = \<lparr>data = ws, cursor = np, err = None\<rparr>"

definition paged :: "'d \<times> NextPage \<Rightarrow> 'd reply" where
  "paged p = page (fst p) (Some (snd p))"

text \<open>The request that an iteration of the walk sends for a given offset.\<close>

definition page_request :: "Options list \<Rightarrow> string \<Rightarrow> request" where
  "page_request options off =
     GET ''/workspaces'' (\<lparr>Limit = 100, Offset = off, Fields = []\<rparr> # options)"

section \<open>stories.go\<close>

subsection \<open>JSON documents\<close>

datatype json =
    JNull
  | JBool bool
  | JNumber real
  | JString string
  | JArray "json list"
  | JObject "(string \<times> json) list"

text \<open>
  \<open>User\<close>, \<open>Section\<close>, \<open>Project\<close>, \<open>Tag\<close>, \<open>Attachment\<close>, \<open>EnumValue\<close> and \<open>Date\<close> are
  declared outside the source files at hand, and \<open>time.Time\<close> belongs to the standard
  library. A value of one of them is held as the JSON document that stands for it. The
  story nested in a story (the field \<open>Story\<close>) and the task nested in a story are held
  the same way, which keeps the record types free of recursion. A pointer is an option,
  \<open>None\<close> for nil.
\<close>

type_synonym foreign = json

record Dates =
  DueOn :: "foreign option"
  DueAt :: "foreign option"
  StartOn :: "foreign option"

text \<open>
  \<open>StorySubtypeFields\<close>, field by field in the order of the source. The field \<open>Story\<close>
  is named \<open>Story_ptr\<close> here. A \<open>float64\<close> is a real number: the values that are not
  numbers, and the infinities, which the encoder refuses, are outside the model.
\<close>

record StorySubtypeFields =
  IsEdited :: bool
  NewDates :: "Dates option"
  OldDates :: "Dates option"
  OldName :: string
  NewName :: string
  OldResourceSubtype :: string
  NewResourceSubtype :: string
  Story_ptr :: "foreign option"
  Attachment :: "foreign option"
  Assignee :: "foreign option"
  Follower :: "foreign option"
  OldSection :: "foreign option"
  NewSection :: "foreign option"
  Task :: "foreign option"
  Project :: "foreign option"
  Tag :: "foreign option"
  OldTextValue :: string
  NewTextValue :: string
  OldNumberValue :: real
  NewNumberValue :: real
  OldEnumValue :: "foreign option"
  NewEnumValue :: "foreign option"
  DuplicateOf :: "foreign option"
  DuplicatedFrom :: "foreign option"
  Dependency :: "foreign option"

text \<open>
  \<open>Story\<close>. The identifier is named \<open>Story_ID\<close> here; the two embedded structs are the
  fields \<open>StoryBase\<close> and \<open>StorySubtypeFields\<close>, as Go names them.
\<close>

record Story =
  Story_ID :: string
  StoryBase :: StoryBase
  CreatedAt :: "foreign option"
  Liked :: bool
  Likes :: "foreign slice"
  NumLikes :: "32 word"
  CreatedBy :: "foreign option"
  Target :: "foreign option"
  Source :: string
  ResourceSubtype :: string
  StorySubtypeFields :: StorySubtypeFields

text \<open>The zero values, as \<open>&Story{}\<close> allocates them.\<close>

definition zero_StorySubtypeFields :: StorySubtypeFields where
  "zero_StorySubtypeFields =
     \<lparr>IsEdited = False, NewDates = None, OldDates = None, OldName = [], NewName = [],
      OldResourceSubtype = [], NewResourceSubtype = [], Story_ptr = None, Attachment = None,
      Assignee = None, Follower = None, OldSection = None, NewSection = None, Task = None,
      Project = None, Tag = None, OldTextValue = [], NewTextValue = [], OldNumberValue = 0,
      NewNumberValue = 0, OldEnumValue = None, NewEnumValue = None, DuplicateOf = None,
      DuplicatedFrom = None, Dependency = None\<rparr>"

definition zero_Story :: Story where
  "zero_Story =
     \<lparr>Story_ID = [], StoryBase = \<lparr>Text = [], HTMLText = [], IsPinned = False\<rparr>,
      CreatedAt = None, Liked = False, Likes = None, NumLikes = 0, CreatedBy = None,
      Target = None, Source = [], ResourceSubtype = [],
      StorySubtypeFields = zero_StorySubtypeFields\<rparr>"

subsection \<open>The operations on stories\<close>

text \<open>
  Modelled from the spec: \<open>Task\<close> is declared outside the source files at hand. The
  operations below read its identifier, printed with \<open>%s\<close>, and its name.
\<close>

record Task =
  Task_ID :: string
  Task_Name :: string

text \<open>
  The objects the operations get pointers to live in a store: a pointer is an index
  into the list of tasks or of stories, allocation appends to the list, and an index
  beyond the list stands for the nil pointer. Reading a field through the nil pointer
  panics; the result \<open>None\<close> is the panic.
\<close>

record store =
  tasks :: "Task list"
  stories :: "Story list"

text \<open>
  \<open>CreateComment\<close>: allocate a zero story, POST the body to \<open>/tasks/<ID>/stories\<close> with
  the new story as target, return the pointer to it and the error.
\<close>

definition CreateComment ::
  "Story Client \<Rightarrow> store \<Rightarrow> nat \<Rightarrow> StoryBase option \<Rightarrow>
     ((nat \<times> error option) \<times> store \<times> Story Client) option" where
  "CreateComment client h t story =
     (if t < length (tasks h) then
        (let result = length (stories h);
             h1 = h\<lparr>stories := stories h @ [zero_Story]\<rparr>
         in case roundtrip client (POST (''/tasks/'' @ Task_ID (tasks h1 ! t) @ ''/stories'') story) of
              (r, client') \<Rightarrow>
                Some ((result, err r), h1\<lparr>stories := (stories h1)[result := data r]\<rparr>, client'))
      else None)"

text \<open>
  \<open>UpdateStory\<close>: allocate a zero story, PUT the body to \<open>/stories/<ID>\<close> with the new
  story as target, return the pointer to it and the error.
\<close>

definition UpdateStory ::
  "Story Client \<Rightarrow> store \<Rightarrow> nat \<Rightarrow> StoryBase option \<Rightarrow>
     ((nat \<times> error option) \<times> store \<times> Story Client) option" where
  "UpdateStory client h s story =
     (if s < length (stories h) then
        (let result = length (stories h);
             h1 = h\<lparr>stories := stories h @ [zero_Story]\<rparr>
         in case roundtrip client (PUT (''/stories/'' @ Story_ID (stories h1 ! s)) story) of
              (r, client') \<Rightarrow>
                Some ((result, err r), h1\<lparr>stories := (stories h1)[result := data r]\<rparr>, client'))
      else None)"

text \<open>\<open>Delete\<close>: DELETE of \<open>/stories/<ID>\<close>; the error of the call is the result.\<close>

definition Delete ::
  "Story Client \<Rightarrow> store \<Rightarrow> nat \<Rightarrow> (error option \<times> store \<times> Story Client) option" where
  "Delete client h s =
     (if s < length (stories h) then
        (case roundtrip client (DELETE (''/stories/'' @ Story_ID (stories h ! s))) of
           (r, client') \<Rightarrow> Some (err r, h, client'))
      else None)"

subsection \<open>The JSON form of a story\<close>

text \<open>
  Every field of the three structs carries the tag \<open>json:"<key>,omitempty"\<close>. Encoding
  follows the tags: a field goes into the object under its key unless it holds the empty
  value of its kind (false, zero, the empty string, a nil pointer, a slice without
  elements); the fields of an embedded struct go into the object of the struct that
  embeds it, at the place of the embedding. Each kind of field yields no member or one.
\<close>

definition bool_field :: "string \<Rightarrow> bool \<Rightarrow> (string \<times> json) list" where
  "bool_field k b = (if b then [(k, JBool True)] else [])"

text \<open>
  A Go string is a sequence of bytes; the encoder writes a string byte by byte as long
  as the bytes are well-formed UTF-8, and writes the replacement character U+FFFD, the
  bytes EF BF BD, for every byte that does not begin a well-formed sequence.
  \<open>rune_width\<close> is the number of bytes of the well-formed sequence at the front of a
  string, zero when there is none: one byte below 80; two bytes C2..DF, 80..BF; three
  bytes E0..EF and four bytes F0..F4 with continuation bytes 80..BF, where the second
  byte is further restricted after E0, ED, F0 and F4.
\<close>

definition byte_in :: "nat \<Rightarrow> nat \<Rightarrow> char \<Rightarrow> bool" where
  "byte_in lo hi c = (lo \<le> (of_char c :: nat) \<and> (of_char c :: nat) \<le> hi)"

definition second_in :: "char \<Rightarrow> char \<Rightarrow> bool" where
  "second_in c0 c1 =
     (let b0 = (of_char c0 :: nat) in
      if b0 = 0xE0 then byte_in 0xA0 0xBF c1
      else if b0 = 0xED then byte_in 0x80 0x9F c1
      else if b0 = 0xF0 then byte_in 0x90 0xBF c1
      else if b0 = 0xF4 then byte_in 0x80 0x8F c1
      else byte_in 0x80 0xBF c1)"

fun rune_width :: "string \<Rightarrow> nat" where
  "rune_width [] = 0"
| "rune_width (c0 # cs) =
     (if byte_in 0x00 0x7F c0 then 1
      else if byte_in 0xC2 0xDF c0 then
        (case cs of c1 # _ \<Rightarrow> if byte_in 0x80 0xBF c1 then 2 else 0 | _ \<Rightarrow> 0)
      else if byte_in 0xE0 0xEF c0 then
        (case cs of
           c1 # c2 # _ \<Rightarrow> if second_in c0 c1 \<and> byte_in 0x80 0xBF c2 then 3 else 0
         | _ \<Rightarrow> 0)
      else if byte_in 0xF0 0xF4 c0 then
        (case cs of
           c1 # c2 # c3 # _ \<Rightarrow>
             if second_in c0 c1 \<and> byte_in 0x80 0xBF c2 \<and> byte_in 0x80 0xBF c3 then 4 else 0
         | _ \<Rightarrow> 0)
      else 0)"

function coerce_utf8 :: "string \<Rightarrow> string" where
  "coerce_utf8 s =
     (case s of
        [] \<Rightarrow> []
      | c # cs \<Rightarrow>
          (if rune_width s = 0 then [CHR 0xEF, CHR 0xBF, CHR 0xBD] @ coerce_utf8 cs
           else take (rune_width s) s @ coerce_utf8 (drop (rune_width s) s)))"
  by pat_completeness auto
termination
  by (relation "measure length") auto

declare coerce_utf8.simps [simp del]

text \<open>
  A string field is left out when the string is empty, and holds the string made
  well-formed otherwise.
\<close>

definition string_field :: "string \<Rightarrow> string \<Rightarrow> (string \<times> json) list" where
  "string_field k s = (if s = [] then [] else [(k, JString (coerce_utf8 s))])"

definition float_field :: "string \<Rightarrow> real \<Rightarrow> (string \<times> json) list" where
  "float_field k x = (if x = 0 then [] else [(k, JNumber x)])"

definition int32_field :: "string \<Rightarrow> 32 word \<Rightarrow> (string \<times> json) list" where
  "int32_field k w = (if w = 0 then [] else [(k, JNumber (of_int (sint w)))])"

definition pointer_field :: "string \<Rightarrow> foreign option \<Rightarrow> (string \<times> json) list" where
  "pointer_field k p = (case p of None \<Rightarrow> [] | Some v \<Rightarrow> [(k, v)])"

definition slice_field :: "string \<Rightarrow> foreign slice \<Rightarrow> (string \<times> json) list" where
  "slice_field k s = (if elems s = [] then [] else [(k, JArray (elems s))])"

definition marshal_Dates :: "Dates \<Rightarrow> json" where
  "marshal_Dates d =
     JObject (pointer_field ''due_on'' (DueOn d) @ pointer_field ''due_at'' (DueAt d)
              @ pointer_field ''start_on'' (StartOn d))"

definition dates_field :: "string \<Rightarrow> Dates option \<Rightarrow> (string \<times> json) list" where
  "dates_field k p = (case p of None \<Rightarrow> [] | Some d \<Rightarrow> [(k, marshal_Dates d)])"

definition members_StoryBase :: "StoryBase \<Rightarrow> (string \<times> json) list" where
  "members_StoryBase b =
     string_field ''text'' (Text b) @ string_field ''html_text'' (HTMLText b)
     @ bool_field ''is_pinned'' (IsPinned b)"

definition members_StorySubtypeFields :: "StorySubtypeFields \<Rightarrow> (string \<times> json) list" where
  "members_StorySubtypeFields f =
     bool_field ''is_edited'' (IsEdited f)
     @ dates_field ''new_dates'' (NewDates f)
     @ dates_field ''old_dates'' (OldDates f)
     @ string_field ''old_name'' (OldName f)
     @ string_field ''new_name'' (NewName f)
     @ string_field ''old_resource_subtype'' (OldResourceSubtype f)
     @ string_field ''new_resource_subtype'' (NewResourceSubtype f)
     @ pointer_field ''story'' (Story_ptr f)
     @ pointer_field ''attachment'' (Attachment f)
     @ pointer_field ''assignee'' (Assignee f)
     @ pointer_field ''follower'' (Follower f)
     @ pointer_field ''old_section'' (OldSection f)
     @ pointer_field ''new_section'' (NewSection f)
     @ pointer_field ''task'' (Task f)
     @ pointer_field ''project'' (Project f)
     @ pointer_field ''tag'' (Tag f)
     @ string_field ''old_text_value'' (OldTextValue f)
     @ string_field ''new_text_value'' (NewTextValue f)
     @ float_field ''old_number_value'' (OldNumberValue f)
     @ float_field ''new_number_value'' (NewNumberValue f)
     @ pointer_field ''old_enum_value'' (OldEnumValue f)
     @ pointer_field ''new_enum_value'' (NewEnumValue f)
     @ pointer_field ''duplicate_of'' (DuplicateOf f)
     @ pointer_field ''duplicated_from'' (DuplicatedFrom f)
     @ pointer_field ''dependency'' (Dependency f)"

definition marshal_Story :: "Story \<Rightarrow> json" where
  "marshal_Story s =
     JObject
       (string_field ''gid'' (Story_ID s)
        @ members_StoryBase (StoryBase s)
        @ pointer_field ''created_at'' (CreatedAt s)
        @ bool_field ''liked'' (Liked s)
        @ slice_field ''likes'' (Likes s)
        @ int32_field ''num_likes'' (NumLikes s)
        @ pointer_field ''created_by'' (CreatedBy s)
        @ pointer_field ''target'' (Target s)
        @ string_field ''source'' (Source s)
        @ string_field ''resource_subtype'' (ResourceSubtype s)
        @ members_StorySubtypeFields (StorySubtypeFields s))"

text \<open>
  The keys of the tags of \<open>Story\<close> and of the two structs it embeds, in the order of
  the fields. The encoder drops a key that two fields of the same depth share; no key
  occurs twice here, so that rule never applies.
\<close>

definition story_keys :: "string list" where
  "story_keys =
     [''gid'', ''text'', ''html_text'', ''is_pinned'', ''created_at'', ''liked'', ''likes'',
      ''num_likes'', ''created_by'', ''target'', ''source'', ''resource_subtype'',
      ''is_edited'', ''new_dates'', ''old_dates'', ''old_name'', ''new_name'',
      ''old_resource_subtype'', ''new_resource_subtype'', ''story'', ''attachment'',
      ''assignee'', ''follower'', ''old_section'', ''new_section'', ''task'', ''project'',
      ''tag'', ''old_text_value'', ''new_text_value'', ''old_number_value'',
      ''new_number_value'', ''old_enum_value'', ''new_enum_value'', ''duplicate_of'',
      ''duplicated_from'', ''dependency'']"

text \<open>
  Decoding into a zero struct reads, for every field, the member with the key of its
  tag: a key that is missing and the value null leave the field at its zero value, a
  value of the kind of the field is stored, and any other value is a type error, which
  is \<open>None\<close> here. Of a key that occurs twice the last occurrence counts. Keys are
  compared as they are written, which is how the encoder writes them.
\<close>

definition lookup :: "(string \<times> json) list \<Rightarrow> string \<Rightarrow> json option" where
  "lookup obj k = map_of (rev obj) k"

definition decode_bool :: "json option \<Rightarrow> bool option" where
  "decode_bool m =
     (case m of None \<Rightarrow> Some False | Some JNull \<Rightarrow> Some False
      | Some (JBool b) \<Rightarrow> Some b | Some _ \<Rightarrow> None)"

definition decode_string :: "json option \<Rightarrow> string option" where
  "decode_string m =
     (case m of None \<Rightarrow> Some [] | Some JNull \<Rightarrow> Some []
      | Some (JString s) \<Rightarrow> Some s | Some _ \<Rightarrow> None)"

definition decode_float :: "json option \<Rightarrow> real option" where
  "decode_float m =
     (case m of None \<Rightarrow> Some 0 | Some JNull \<Rightarrow> Some 0
      | Some (JNumber x) \<Rightarrow> Some x | Some _ \<Rightarrow> None)"

definition decode_int32 :: "json option \<Rightarrow> 32 word option" where
  "decode_int32 m =
     (case m of None \<Rightarrow> Some 0 | Some JNull \<Rightarrow> Some 0
      | Some (JNumber x) \<Rightarrow>
          (if of_int \<lfloor>x\<rfloor> = x \<and> - 2147483648 \<le> \<lfloor>x\<rfloor> \<and> \<lfloor>x\<rfloor> \<le> 2147483647
           then Some (word_of_int \<lfloor>x\<rfloor>) else None)
      | Some _ \<Rightarrow> None)"

definition decode_pointer :: "json option \<Rightarrow> foreign option option" where
  "decode_pointer m =
     (case m of None \<Rightarrow> Some None | Some JNull \<Rightarrow> Some None | Some v \<Rightarrow> Some (Some v))"

definition decode_slice :: "json option \<Rightarrow> foreign slice option" where
  "decode_slice m =
     (case m of None \<Rightarrow> Some None | Some JNull \<Rightarrow> Some None
      | Some (JArray xs) \<Rightarrow> Some (Some xs) | Some _ \<Rightarrow> None)"

definition unmarshal_Dates :: "(string \<times> json) list \<Rightarrow> Dates option" where
  "unmarshal_Dates obj =
     do {
       due_on \<leftarrow> decode_pointer (lookup obj ''due_on'');
       due_at \<leftarrow> decode_pointer (lookup obj ''due_at'');
       start_on \<leftarrow> decode_pointer (lookup obj ''start_on'');
       Some \<lparr>DueOn = due_on, DueAt = due_at, StartOn = start_on\<rparr>
     }"

definition decode_dates :: "json option \<Rightarrow> Dates option option" where
  "decode_dates m =
     (case m of None \<Rightarrow> Some None | Some JNull \<Rightarrow> Some None
      | Some (JObject obj) \<Rightarrow> map_option Some (unmarshal_Dates obj) | Some _ \<Rightarrow> None)"

definition unmarshal_StoryBase :: "(string \<times> json) list \<Rightarrow> StoryBase option" where
  "unmarshal_StoryBase obj =
     do {
       text \<leftarrow> decode_string (lookup obj ''text'');
       html_text \<leftarrow> decode_string (lookup obj ''html_text'');
       is_pinned \<leftarrow> decode_bool (lookup obj ''is_pinned'');
       Some \<lparr>Text = text, HTMLText = html_text, IsPinned = is_pinned\<rparr>
     }"

definition unmarshal_StorySubtypeFields :: "(string \<times> json) list \<Rightarrow> StorySubtypeFields option" where
  "unmarshal_StorySubtypeFields obj =
     do {
       is_edited \<leftarrow> decode_bool (lookup obj ''is_edited'');
       new_dates \<leftarrow> decode_dates (lookup obj ''new_dates'');
       old_dates \<leftarrow> decode_dates (lookup obj ''old_dates'');
       old_name \<leftarrow> decode_string (lookup obj ''old_name'');
       new_name \<leftarrow> decode_string (lookup obj ''new_name'');
       old_resource_subtype \<leftarrow> decode_string (lookup obj ''old_resource_subtype'');
       new_resource_subtype \<leftarrow> decode_string (lookup obj ''new_resource_subtype'');
       story \<leftarrow> decode_pointer (lookup obj ''story'');
       attachment \<leftarrow> decode_pointer (lookup obj ''attachment'');
       assignee \<leftarrow> decode_pointer (lookup obj ''assignee'');
       follower \<leftarrow> decode_pointer (lookup obj ''follower'');
       old_section \<leftarrow> decode_pointer (lookup obj ''old_section'');
       new_section \<leftarrow> decode_pointer (lookup obj ''new_section'');
       task \<leftarrow> decode_pointer (lookup obj ''task'');
       project \<leftarrow> decode_pointer (lookup obj ''project'');
       tag \<leftarrow> decode_pointer (lookup obj ''tag'');
       old_text_value \<leftarrow> decode_string (lookup obj ''old_text_value'');
       new_text_value \<leftarrow> decode_string (lookup obj ''new_text_value'');
       old_number_value \<leftarrow> decode_float (lookup obj ''old_number_value'');
       new_number_value \<leftarrow> decode_float (lookup obj ''new_number_value'');
       old_enum_value \<leftarrow> decode_pointer (lookup obj ''old_enum_value'');
       new_enum_value \<leftarrow> decode_pointer (lookup obj ''new_enum_value'');
       duplicate_of \<leftarrow> decode_pointer (lookup obj ''duplicate_of'');
       duplicated_from \<leftarrow> decode_pointer (lookup obj ''duplicated_from'');
       dependency \<leftarrow> decode_pointer (lookup obj ''dependency'');
       Some \<lparr>IsEdited = is_edited, NewDates = new_dates, OldDates = old_dates,
             OldName = old_name, NewName = new_name,
             OldResourceSubtype = old_resource_subtype,
             NewResourceSubtype = new_resource_subtype,
             Story_ptr = story, Attachment = attachment, Assignee = assignee,
             Follower = follower, OldSection = old_section, NewSection = new_section,
             Task = task, Project = project, Tag = tag,
             OldTextValue = old_text_value, NewTextValue = new_text_value,
             OldNumberValue = old_number_value, NewNumberValue = new_number_value,
             OldEnumValue = old_enum_value, NewEnumValue = new_enum_value,
             DuplicateOf = duplicate_of, DuplicatedFrom = duplicated_from,
             Dependency = dependency\<rparr>
     }"

definition unmarshal_Story :: "json \<Rightarrow> Story option" where
  "unmarshal_Story j =
     (case j of
        JObject obj \<Rightarrow>
          do {
            gid \<leftarrow> decode_string (lookup obj ''gid'');
            base \<leftarrow> unmarshal_StoryBase obj;
            created_at \<leftarrow> decode_pointer (lookup obj ''created_at'');
            liked \<leftarrow> decode_bool (lookup obj ''liked'');
            likes \<leftarrow> decode_slice (lookup obj ''likes'');
            num_likes \<leftarrow> decode_int32 (lookup obj ''num_likes'');
            created_by \<leftarrow> decode_pointer (lookup obj ''created_by'');
            target \<leftarrow> decode_pointer (lookup obj ''target'');
            source \<leftarrow> decode_string (lookup obj ''source'');
            resource_subtype \<leftarrow> decode_string (lookup obj ''resource_subtype'');
            subtype_fields \<leftarrow> unmarshal_StorySubtypeFields obj;
            Some \<lparr>Story_ID = gid, StoryBase = base, CreatedAt = created_at, Liked = liked,
                  Likes = likes, NumLikes = num_likes, CreatedBy = created_by,
                  Target = target, Source = source, ResourceSubtype = resource_subtype,
                  StorySubtypeFields = subtype_fields\<rparr>
          }
      | JNull \<Rightarrow> Some zero_Story
      | _ \<Rightarrow> None)"

text \<open>The subtype fields of a story of which only the old and the new name are set.\<close>

definition only_names :: "string \<Rightarrow> string \<Rightarrow> StorySubtypeFields" where
  "only_names a b = zero_StorySubtypeFields\<lparr>OldName := a, NewName := b\<rparr>"

section \<open>Properties of the pagination walk\<close>

text \<open>One iteration of the loop, and the loop on a nil cursor.\<close>

lemma loop_step:
  "AllWorkspaces_loop options (Some np) acc c =
     (let r = respond c (calls c) (page_request options (NextPage_Offset np));
          c' = c\<lparr>calls := calls c @ [page_request options (NextPage_Offset np)]\<rparr>
      in if err r \<noteq> None then Some ((None, err r), c')
         else AllWorkspaces_loop options (cursor r) (go_append acc (data r)) c')"
  by (subst AllWorkspaces_loop.simps) (simp add: Workspaces_def roundtrip_def page_request_def Let_def)

lemma loop_nil: "AllWorkspaces_loop options None acc c = Some ((acc, None), c)"
  by (subst AllWorkspaces_loop.simps) simp

lemma scripted_respond_at:
  "length hist = length pre \<Longrightarrow> scripted_respond (pre @ r # rest) dflt hist req = r"
  by (simp add: scripted_respond_def nth_append)

lemma loop_scripted:
  assumes "respond c = scripted_respond (pre @ map paged front @ r # rest) dflt"
    and "length (calls c) = length pre"
  shows "AllWorkspaces_loop options (Some np) acc c =
     (if err r \<noteq> None
      then Some ((None, err r),
             c\<lparr>calls := calls c @ map (page_request options) (NextPage_Offset np # map (\<lambda>p. NextPage_Offset (snd p)) front)\<rparr>)
      else AllWorkspaces_loop options (cursor r)
             (go_append (foldl go_append acc (map fst front)) (data r))
             (c\<lparr>calls := calls c @ map (page_request options) (NextPage_Offset np # map (\<lambda>p. NextPage_Offset (snd p)) front)\<rparr>))"
  using assms
proof (induction front arbitrary: np acc c pre)
  case Nil
  have r: "respond c (calls c) (page_request options (NextPage_Offset np)) = r"
    using Nil by (simp add: scripted_respond_at)
  show ?case
    by (subst loop_step) (simp add: r Let_def)
next
  case (Cons p front)
  let ?req = "page_request options (NextPage_Offset np)"
  let ?c' = "c\<lparr>calls := calls c @ [?req]\<rparr>"
  have r: "respond c (calls c) ?req = paged p"
    using Cons.prems by (simp add: scripted_respond_at)
  have step: "AllWorkspaces_loop options (Some np) acc c =
        AllWorkspaces_loop options (Some (snd p)) (go_append acc (fst p)) ?c'"
    by (subst loop_step) (simp add: r paged_def page_def Let_def)
  have a: "respond ?c' = scripted_respond ((pre @ [paged p]) @ map paged front @ r # rest) dflt"
    using Cons.prems(1) by simp
  have b: "length (calls ?c') = length (pre @ [paged p])"
    using Cons.prems(2) by simp
  show ?case
    unfolding step Cons.IH [OF a b] by (simp add: comp_def)
qed

lemma foldl_go_append:
  "foldl go_append (Some xs) ss = Some (xs @ concat (map elems ss))"
  by (induction ss arbitrary: xs) (simp_all add: go_append_def elems_def)

lemma walk_scripted:
  "AllWorkspaces (scripted (map paged front @ r # rest) dflt) options =
     (if err r \<noteq> None
      then Some ((None, err r),
             \<lparr>calls = map (page_request options) ([] # map (\<lambda>p. NextPage_Offset (snd p)) front),
              respond = scripted_respond (map paged front @ r # rest) dflt\<rparr>)
      else AllWorkspaces_loop options (cursor r)
             (Some (concat (map elems (map fst front @ [data r]))))
             \<lparr>calls = map (page_request options) ([] # map (\<lambda>p. NextPage_Offset (snd p)) front),
              respond = scripted_respond (map paged front @ r # rest) dflt\<rparr>)"
proof -
  let ?c = "scripted (map paged front @ r # rest) dflt"
  have a: "respond ?c = scripted_respond ([] @ map paged front @ r # rest) dflt"
    by (simp add: scripted_def)
  have b: "length (calls ?c) = length ([] :: Workspace slice reply list)"
    by (simp add: scripted_def)
  have acc: "go_append (foldl go_append (Some []) (map fst front)) (data r)
     = Some (concat (map elems (map fst front @ [data r])))"
    by (simp add: foldl_go_append go_append_def elems_def)
  have c: "?c\<lparr>calls := calls ?c @ xs\<rparr> =
      \<lparr>calls = xs, respond = scripted_respond (map paged front @ r # rest) dflt\<rparr>" for xs
    by (simp add: scripted_def)
  show ?thesis
    unfolding AllWorkspaces_def loop_scripted [OF a b] acc c by simp
qed

text \<open>
  C1. A scripted transport that serves N pages, every one but the last with a cursor and
  the last with a nil cursor: \<open>AllWorkspaces\<close> returns (it is not \<open>None\<close>), the result is
  the concatenation of the items of all pages in page order with a nil error, and the log
  of the transport holds exactly N requests, one per call of \<open>Workspaces\<close>.
\<close>

theorem AllWorkspaces_all_pages:
  "AllWorkspaces (scripted (map paged front @ [page ws None]) dflt) options =
     Some ((Some (concat (map elems (map fst front @ [ws]))), None),
           \<lparr>calls = map (page_request options) ([] # map (\<lambda>p. NextPage_Offset (snd p)) front),
            respond = scripted_respond (map paged front @ [page ws None]) dflt\<rparr>)
   \<and> length (map (page_request options) ([] # map (\<lambda>p. NextPage_Offset (snd p)) front))
       = length (map paged front @ [page ws None])"
proof
  have e: "err (page ws None) = None" and c: "cursor (page ws None) = None"
    and d: "data (page ws None) = ws"
    by (simp_all add: page_def)
  show "AllWorkspaces (scripted (map paged front @ [page ws None]) dflt) options =
     Some ((Some (concat (map elems (map fst front @ [ws]))), None),
           \<lparr>calls = map (page_request options) ([] # map (\<lambda>p. NextPage_Offset (snd p)) front),
            respond = scripted_respond (map paged front @ [page ws None]) dflt\<rparr>)"
    unfolding walk_scripted e c d loop_nil by simp
  show "length (map (page_request options) ([] # map (\<lambda>p. NextPage_Offset (snd p)) front))
       = length (map paged front @ [page ws None])"
    by simp
qed

text \<open>
  C2. A scripted transport whose page k fails with the error \<open>e\<close>, after k - 1 pages that
  succeeded with a cursor: \<open>AllWorkspaces\<close> returns the nil slice and the error \<open>e\<close> as it
  is, whatever the failing reply carries as data or cursor and whatever the script holds
  after it; the items of the pages before are not part of the result.
\<close>

theorem AllWorkspaces_page_error:
  "AllWorkspaces
     (scripted (map paged front @ \<lparr>data = d, cursor = cu, err = Some e\<rparr> # rest) dflt) options =
     Some ((None, Some e),
           \<lparr>calls = map (page_request options) ([] # map (\<lambda>p. NextPage_Offset (snd p)) front),
            respond =
              scripted_respond (map paged front @ \<lparr>data = d, cursor = cu, err = Some e\<rparr> # rest) dflt\<rparr>)"
  unfolding walk_scripted by simp

text \<open>
  C5. An iteration whose page has no items but a cursor does not end the walk: the
  accumulator is unchanged and the outcome of the walk is that of the next iteration,
  which sends the request with the offset of the returned cursor.
\<close>

theorem empty_page_continues:
  assumes "Workspaces c (\<lparr>Limit = 100, Offset = NextPage_Offset np, Fields = []\<rparr> # options)
             = ((ws, Some np', None), c')"
    and "elems ws = []"
  shows "AllWorkspaces_loop options (Some np) acc c =
           (case Workspaces c' (\<lparr>Limit = 100, Offset = NextPage_Offset np', Fields = []\<rparr> # options) of
              ((workspaces, nextPage', e), c'') \<Rightarrow>
                if e \<noteq> None then Some ((None, e), c'')
                else AllWorkspaces_loop options nextPage' (go_append acc workspaces) c'')"
proof -
  have 1: "AllWorkspaces_loop options (Some np) acc c = AllWorkspaces_loop options (Some np') acc c'"
    by (subst AllWorkspaces_loop.simps) (simp add: assms go_append_def)
  have 2: "AllWorkspaces_loop options (Some np') acc c' =
      (case Workspaces c' (\<lparr>Limit = 100, Offset = NextPage_Offset np', Fields = []\<rparr> # options) of
              ((workspaces, nextPage', e), c'') \<Rightarrow>
                if e \<noteq> None then Some ((None, e), c'')
                else AllWorkspaces_loop options nextPage' (go_append acc workspaces) c'')"
    by (rule trans [OF AllWorkspaces_loop.simps]) simp
  from 1 2 show ?thesis by (rule trans)
qed

text \<open>
  The walk over a first page without items and with the cursor \<open>a\<close>, and a second page
  with one workspace and no cursor.
\<close>

theorem empty_page_continues_witness:
  "Workspaces (scripted [paged (Some [], \<lparr>NextPage_Offset = ''a''\<rparr>), page (Some [Workspace_of_id 7]) None]
                 (page None None))
       (\<lparr>Limit = 100, Offset = NextPage_Offset \<lparr>NextPage_Offset = []\<rparr>, Fields = []\<rparr> # [])
     = ((Some [], Some \<lparr>NextPage_Offset = ''a''\<rparr>, None),
        \<lparr>calls = [page_request [] []],
         respond = scripted_respond
           [paged (Some [], \<lparr>NextPage_Offset = ''a''\<rparr>), page (Some [Workspace_of_id 7]) None]
           (page None None)\<rparr>)
   \<and> elems (Some [] :: Workspace slice) = []
   \<and> AllWorkspaces_loop [] (Some \<lparr>NextPage_Offset = []\<rparr>) (Some [])
        (scripted [paged (Some [], \<lparr>NextPage_Offset = ''a''\<rparr>), page (Some [Workspace_of_id 7]) None]
           (page None None))
     = Some ((Some [Workspace_of_id 7], None),
        \<lparr>calls = [page_request [] [], page_request [] ''a''],
         respond = scripted_respond
           [paged (Some [], \<lparr>NextPage_Offset = ''a''\<rparr>), page (Some [Workspace_of_id 7]) None]
           (page None None)\<rparr>)"
proof -
  let ?script = "[paged (Some [], \<lparr>NextPage_Offset = ''a''\<rparr>), page (Some [Workspace_of_id 7]) None]"
  let ?c = "scripted ?script (page None None)"
  let ?c' = "\<lparr>calls = [page_request [] []],
              respond = scripted_respond ?script (page None None)\<rparr>"
  have h1: "Workspaces ?c (\<lparr>Limit = 100, Offset = NextPage_Offset \<lparr>NextPage_Offset = []\<rparr>, Fields = []\<rparr> # [])
     = ((Some [], Some \<lparr>NextPage_Offset = ''a''\<rparr>, None), ?c')"
    by (simp add: Workspaces_def roundtrip_def scripted_def scripted_respond_def paged_def page_def
        page_request_def)
  have h2: "elems (Some [] :: Workspace slice) = []"
    by (simp add: elems_def)
  have n: "Workspaces ?c' (\<lparr>Limit = 100, Offset = NextPage_Offset \<lparr>NextPage_Offset = ''a''\<rparr>, Fields = []\<rparr> # [])
     = ((Some [Workspace_of_id 7], None, None),
        \<lparr>calls = [page_request [] [], page_request [] ''a''],
         respond = scripted_respond ?script (page None None)\<rparr>)"
    by (simp add: Workspaces_def roundtrip_def scripted_respond_def paged_def page_def page_request_def)
  have "AllWorkspaces_loop [] (Some \<lparr>NextPage_Offset = []\<rparr>) (Some []) ?c
     = Some ((Some [Workspace_of_id 7], None),
        \<lparr>calls = [page_request [] [], page_request [] ''a''],
         respond = scripted_respond ?script (page None None)\<rparr>)"
    unfolding empty_page_continues [OF h1 h2] n
    by (simp add: loop_nil go_append_def elems_def)
  with h1 h2 show ?thesis by blast
qed

text \<open>The accumulator of the walk starts as an empty slice and never becomes nil.\<close>

lemma go_append_not_nil: "s \<noteq> None \<Longrightarrow> go_append s t \<noteq> None"
  by (simp add: go_append_def)

lemma loop_nil_iff_error:
  assumes "AllWorkspaces_loop options nextPage acc c = Some y"
  shows "acc \<noteq> None \<longrightarrow> (fst (fst y) = None \<longleftrightarrow> snd (fst y) \<noteq> None)"
proof (rule AllWorkspaces_loop.raw_induct
    [where P = "\<lambda>options nextPage acc c y. acc \<noteq> None \<longrightarrow> (fst (fst y) = None \<longleftrightarrow> snd (fst y) \<noteq> None)",
     OF _ assms])
  fix loop :: "Options list \<Rightarrow> NextPage option \<Rightarrow> Workspace slice \<Rightarrow> Workspace slice Client \<Rightarrow>
     ((Workspace slice \<times> error option) \<times> Workspace slice Client) option"
  fix options nextPage acc c y
  assume IH: "\<And>options nextPage acc c y. loop options nextPage acc c = Some y \<Longrightarrow>
          acc \<noteq> None \<longrightarrow> (fst (fst y) = None \<longleftrightarrow> snd (fst y) \<noteq> None)"
  assume body: "(case nextPage of None \<Rightarrow> Some ((acc, None), c)
        | Some np \<Rightarrow>
            case Workspaces c (\<lparr>Limit = 100, Offset = NextPage_Offset np, Fields = []\<rparr> # options) of
            ((workspaces, nextPage', e), c') \<Rightarrow>
              if e \<noteq> None then Some ((None, e), c')
              else loop options nextPage' (go_append acc workspaces) c') = Some y"
  show "acc \<noteq> None \<longrightarrow> (fst (fst y) = None \<longleftrightarrow> snd (fst y) \<noteq> None)"
  proof (cases nextPage)
    case None
    with body have "y = ((acc, None), c)" by simp
    then show ?thesis by simp
  next
    case (Some np)
    obtain ws nx e c' where w:
      "Workspaces c (\<lparr>Limit = 100, Offset = NextPage_Offset np, Fields = []\<rparr> # options) = ((ws, nx, e), c')"
      by (cases "Workspaces c (\<lparr>Limit = 100, Offset = NextPage_Offset np, Fields = []\<rparr> # options)") auto
    show ?thesis
    proof (cases e)
      case None
      with body Some w have "loop options nx (go_append acc ws) c' = Some y" by simp
      from IH [OF this] go_append_not_nil [of acc ws] show ?thesis by blast
    next
      case (Some a)
      with body \<open>nextPage = Some np\<close> w have "y = ((None, Some a), c')" by simp
      then show ?thesis by simp
    qed
  qed
qed

text \<open>
  C9. Whenever \<open>AllWorkspaces\<close> returns, on any transport, its slice is nil exactly when
  its error is not nil. On a scripted transport whose pages all come without items the
  walk returns the empty slice that is not nil, and a nil error.
\<close>

theorem AllWorkspaces_nil_iff_error:
  "(AllWorkspaces c options = Some ((res, e), c') \<longrightarrow> (res = None \<longleftrightarrow> e \<noteq> None))
   \<and> ((\<forall>p \<in> set front. elems (fst p) = []) \<and> elems ws = [] \<longrightarrow>
        AllWorkspaces (scripted (map paged front @ [page ws None]) dflt) options =
          Some ((Some [], None),
             \<lparr>calls = map (page_request options) ([] # map (\<lambda>p. NextPage_Offset (snd p)) front),
              respond = scripted_respond (map paged front @ [page ws None]) dflt\<rparr>))"
proof (intro conjI impI)
  assume "AllWorkspaces c options = Some ((res, e), c')"
  then have "AllWorkspaces_loop options (Some \<lparr>NextPage_Offset = []\<rparr>) (Some []) c = Some ((res, e), c')"
    by (simp add: AllWorkspaces_def)
  from loop_nil_iff_error [OF this] show "res = None \<longleftrightarrow> e \<noteq> None" by simp
next
  assume a: "(\<forall>p \<in> set front. elems (fst p) = []) \<and> elems ws = []"
  have e: "err (page ws None) = None" and c: "cursor (page ws None) = None"
    and d: "data (page ws None) = ws"
    by (simp_all add: page_def)
  from a have "concat (map elems (map fst front @ [ws])) = []" by simp
  then show "AllWorkspaces (scripted (map paged front @ [page ws None]) dflt) options =
          Some ((Some [], None),
             \<lparr>calls = map (page_request options) ([] # map (\<lambda>p. NextPage_Offset (snd p)) front),
              respond = scripted_respond (map paged front @ [page ws None]) dflt\<rparr>)"
    unfolding walk_scripted e c d loop_nil by simp
qed

text \<open>
  Two walks: one over a nil page with a cursor and an empty last page, which succeeds
  with the empty slice, and one whose only page fails, which returns the nil slice.
\<close>

theorem AllWorkspaces_nil_iff_error_witness:
  "AllWorkspaces (scripted [paged (None, \<lparr>NextPage_Offset = ''a''\<rparr>), page (Some []) None] (page None None)) []
     = Some ((Some [], None),
         \<lparr>calls = [page_request [] [], page_request [] ''a''],
          respond = scripted_respond [paged (None, \<lparr>NextPage_Offset = ''a''\<rparr>), page (Some []) None]
                      (page None None)\<rparr>)
   \<and> ((Some [] :: Workspace slice) = None \<longleftrightarrow> (None :: error option) \<noteq> None)
   \<and> elems (fst (None :: Workspace slice, \<lparr>NextPage_Offset = ''a''\<rparr>)) = []
   \<and> elems (Some [] :: Workspace slice) = []
   \<and> AllWorkspaces
        (scripted [\<lparr>data = Some [Workspace_of_id 7], cursor = None, err = Some (TransportError ''reset'')\<rparr>]
           (page None None)) []
     = Some ((None, Some (TransportError ''reset'')),
         \<lparr>calls = [page_request [] []],
          respond = scripted_respond
            [\<lparr>data = Some [Workspace_of_id 7], cursor = None, err = Some (TransportError ''reset'')\<rparr>]
            (page None None)\<rparr>)
   \<and> ((None :: Workspace slice) = None \<longleftrightarrow> Some (TransportError ''reset'') \<noteq> None)"
proof -
  let ?front = "[(None :: Workspace slice, \<lparr>NextPage_Offset = ''a''\<rparr>)]"
  let ?bad = "\<lparr>data = Some [Workspace_of_id 7], cursor = None, err = Some (TransportError ''reset'')\<rparr>"
  have h: "(\<forall>p \<in> set ?front. elems (fst p) = []) \<and> elems (Some [] :: Workspace slice) = []"
    by (simp add: elems_def)
  have ok: "AllWorkspaces (scripted [paged (None, \<lparr>NextPage_Offset = ''a''\<rparr>), page (Some []) None] (page None None)) []
     = Some ((Some [], None),
         \<lparr>calls = [page_request [] [], page_request [] ''a''],
          respond = scripted_respond [paged (None, \<lparr>NextPage_Offset = ''a''\<rparr>), page (Some []) None]
                      (page None None)\<rparr>)"
    using AllWorkspaces_nil_iff_error
      [where front = ?front and ws = "Some []" and dflt = "page None None" and options = "[]",
       THEN conjunct2, rule_format, OF h]
    by simp
  have bad: "AllWorkspaces (scripted [?bad] (page None None)) []
     = Some ((None, Some (TransportError ''reset'')),
         \<lparr>calls = [page_request [] []],
          respond = scripted_respond [?bad] (page None None)\<rparr>)"
    using walk_scripted [where front = "[]" and r = ?bad and rest = "[]" and dflt = "page None None"
        and options = "[]"]
    by simp
  from AllWorkspaces_nil_iff_error [THEN conjunct1, rule_format, OF ok]
  have 1: "(Some [] :: Workspace slice) = None \<longleftrightarrow> (None :: error option) \<noteq> None" .
  from AllWorkspaces_nil_iff_error [THEN conjunct1, rule_format, OF bad]
  have 2: "(None :: Workspace slice) = None \<longleftrightarrow> Some (TransportError ''reset'') \<noteq> None" .
  from h have h': "elems (fst (None :: Workspace slice, \<lparr>NextPage_Offset = ''a''\<rparr>)) = []
      \<and> elems (Some [] :: Workspace slice) = []"
    by simp
  from ok 1 h' bad 2 show ?thesis by blast
qed

section \<open>The page option of the walk\<close>



section \<open>Properties of the expansion guard\<close>

text \<open>
  C4, as amended. On a workspace that is not yet expanded and whose GET succeeds, two
  calls of \<open>Expand\<close> make exactly one network call: the first call sets the flag, the
  second returns success and leaves the client as it is. On a workspace that is expanded
  already, both calls return success and no request is made at all.
\<close>

theorem Expand_twice_one_call:
  "(\<not> expanded w \<and> err (respond c (calls c) (GET (''/workspaces/'' @ sprint_d (ID w)) [])) = None \<longrightarrow>
      Expand_twice c w =
        ((decode_into (respond c (calls c) (GET (''/workspaces/'' @ sprint_d (ID w)) [])) w, None, None),
         c\<lparr>calls := calls c @ [GET (''/workspaces/'' @ sprint_d (ID w)) []]\<rparr>)
      \<and> expanded (decode_into (respond c (calls c) (GET (''/workspaces/'' @ sprint_d (ID w)) [])) w))
   \<and> (expanded w \<longrightarrow> Expand_twice c w = ((w, None, None), c))"
  by (simp add: Expand_twice_def Expand_def roundtrip_def decode_into_def)

theorem Expand_twice_one_call_witness:
  "\<not> expanded (Workspace_of_id 7)
   \<and> err (respond (scripted [] (page (Workspace_of_id 7) None))
             (calls (scripted [] (page (Workspace_of_id 7) None :: Workspace reply)))
             (GET (''/workspaces/'' @ sprint_d (ID (Workspace_of_id 7))) [])) = None
   \<and> Expand_twice (scripted [] (page (Workspace_of_id 7) None)) (Workspace_of_id 7) =
        (((Workspace_of_id 7)\<lparr>expanded := True\<rparr>, None, None),
         \<lparr>calls = [GET ''/workspaces/7'' []],
          respond = scripted_respond [] (page (Workspace_of_id 7) None)\<rparr>)
   \<and> expanded ((Workspace_of_id 7)\<lparr>expanded := True\<rparr>)
   \<and> Expand_twice (scripted [] (page (Workspace_of_id 7) None)) ((Workspace_of_id 7)\<lparr>expanded := True\<rparr>) =
        (((Workspace_of_id 7)\<lparr>expanded := True\<rparr>, None, None),
         scripted [] (page (Workspace_of_id 7) None))"
  using Expand_twice_one_call [of "Workspace_of_id 7" "scripted [] (page (Workspace_of_id 7) None)"]
    Expand_twice_one_call [of "(Workspace_of_id 7)\<lparr>expanded := True\<rparr>"
      "scripted [] (page (Workspace_of_id 7) None)"]
  by (simp add: Workspace_of_id_def scripted_def scripted_respond_def page_def decode_into_def
      sprint_d_def digits.simps)

text \<open>
  The claim as it is written speaks of every workspace. Two calls on an expanded
  workspace make no network call, and two calls against a transport that fails make two.
\<close>

theorem Expand_twice_counterexample:
  "Expand_twice (scripted [] (page (Workspace_of_id 7) None)) ((Workspace_of_id 7)\<lparr>expanded := True\<rparr>) =
        (((Workspace_of_id 7)\<lparr>expanded := True\<rparr>, None, None),
         \<lparr>calls = [], respond = scripted_respond [] (page (Workspace_of_id 7) None)\<rparr>)
   \<and> Expand_twice
        (scripted [] \<lparr>data = Workspace_of_id 7, cursor = None, err = Some (TransportError ''unreachable'')\<rparr>)
        (Workspace_of_id 7) =
        ((Workspace_of_id 7, Some (TransportError ''unreachable''), Some (TransportError ''unreachable'')),
         \<lparr>calls = [GET ''/workspaces/7'' [], GET ''/workspaces/7'' []],
          respond = scripted_respond []
            \<lparr>data = Workspace_of_id 7, cursor = None, err = Some (TransportError ''unreachable'')\<rparr>\<rparr>)"
  by (simp add: Expand_twice_def Expand_def roundtrip_def Workspace_of_id_def scripted_def
      scripted_respond_def page_def decode_into_def sprint_d_def digits.simps)

text \<open>
  C6. On a workspace that is not yet expanded, a GET that fails with \<open>e\<close> makes \<open>Expand\<close>
  return \<open>e\<close> as it is; the receiver is unchanged, so the flag is still false, and the
  log has grown by the one request, so nothing was retried.
\<close>

theorem Expand_failure:
  assumes "\<not> expanded w"
    and "err (respond c (calls c) (GET (''/workspaces/'' @ sprint_d (ID w)) [])) = Some e"
  shows "Expand c w = ((w, Some e), c\<lparr>calls := calls c @ [GET (''/workspaces/'' @ sprint_d (ID w)) []]\<rparr>)
     \<and> \<not> expanded (fst (fst (Expand c w)))"
  using assms by (simp add: Expand_def roundtrip_def decode_into_def)

theorem Expand_failure_witness:
  "\<not> expanded (Workspace_of_id 7)
   \<and> err (respond
        (scripted [\<lparr>data = Workspace_of_id 9, cursor = None, err = Some (TransportError ''timeout'')\<rparr>]
           (page (Workspace_of_id 7) None))
        (calls (scripted [\<lparr>data = Workspace_of_id 9, cursor = None, err = Some (TransportError ''timeout'')\<rparr>]
           (page (Workspace_of_id 7) None)))
        (GET (''/workspaces/'' @ sprint_d (ID (Workspace_of_id 7))) [])) = Some (TransportError ''timeout'')
   \<and> Expand
        (scripted [\<lparr>data = Workspace_of_id 9, cursor = None, err = Some (TransportError ''timeout'')\<rparr>]
           (page (Workspace_of_id 7) None))
        (Workspace_of_id 7) =
       ((Workspace_of_id 7, Some (TransportError ''timeout'')),
        \<lparr>calls = [GET ''/workspaces/7'' []],
         respond = scripted_respond
           [\<lparr>data = Workspace_of_id 9, cursor = None, err = Some (TransportError ''timeout'')\<rparr>]
           (page (Workspace_of_id 7) None)\<rparr>)"
proof -
  let ?c = "scripted [\<lparr>data = Workspace_of_id 9, cursor = None, err = Some (TransportError ''timeout'')\<rparr>]
           (page (Workspace_of_id 7) None)"
  have h1: "\<not> expanded (Workspace_of_id 7)"
    by (simp add: Workspace_of_id_def)
  have h2: "err (respond ?c (calls ?c) (GET (''/workspaces/'' @ sprint_d (ID (Workspace_of_id 7))) []))
      = Some (TransportError ''timeout'')"
    by (simp add: scripted_def scripted_respond_def)
  from Expand_failure [OF h1 h2] h1 h2 show ?thesis
    by (simp add: Workspace_of_id_def scripted_def sprint_d_def digits.simps)
qed

text \<open>
  C7, as amended. \<open>Expand\<close> does not look at the identifier: on a handle that is not
  expanded and whose identifier is zero it sends the GET of \<open>/workspaces/0\<close>, and its
  result is the error of that round trip, nil when the transport succeeds.
\<close>

theorem Expand_no_id_check:
  assumes "\<not> expanded w" and "ID w = 0"
  shows "calls (snd (Expand c w)) = calls c @ [GET ''/workspaces/0'' []]
     \<and> snd (fst (Expand c w)) = err (respond c (calls c) (GET ''/workspaces/0'' []))"
  using assms by (simp add: Expand_def roundtrip_def sprint_d_def digits.simps)

theorem Expand_no_id_check_witness:
  "\<not> expanded (Workspace_of_id 0) \<and> ID (Workspace_of_id 0) = 0
   \<and> calls (snd (Expand (scripted [] (page (Workspace_of_id 0) None)) (Workspace_of_id 0)))
       = [GET ''/workspaces/0'' []]
   \<and> snd (fst (Expand (scripted [] (page (Workspace_of_id 0) None)) (Workspace_of_id 0))) = None"
proof -
  have h1: "\<not> expanded (Workspace_of_id 0)" and h2: "ID (Workspace_of_id 0) = 0"
    by (simp_all add: Workspace_of_id_def)
  from Expand_no_id_check [OF h1 h2, of "scripted [] (page (Workspace_of_id 0) None)"] h1 h2
  show ?thesis
    by (simp add: scripted_def scripted_respond_def page_def)
qed

text \<open>
  The handle without an identifier, against a transport that answers: the call succeeds
  with a nil error, which is no \<open>LogicError\<close>, and the request has been sent.
\<close>

theorem Expand_zero_id_counterexample:
  "Expand (scripted [page (Workspace_of_id 0) None] (page (Workspace_of_id 0) None)) (Workspace_of_id 0)
     = (((Workspace_of_id 0)\<lparr>expanded := True\<rparr>, None),
        \<lparr>calls = [GET ''/workspaces/0'' []],
         respond = scripted_respond [page (Workspace_of_id 0) None] (page (Workspace_of_id 0) None)\<rparr>)"
  by (simp add: Expand_def roundtrip_def sprint_d_def digits.simps scripted_def scripted_respond_def
      page_def decode_into_def Workspace_of_id_def)

section \<open>The story operations and the store\<close>

text \<open>
  C10. \<open>CreateComment\<close> and \<open>UpdateStory\<close> leave every task and every story that was in
  the store as it was, the receiver among them; the story they return is at a new
  address, which is not the receiver's, and holds what the transport decoded from the
  response. \<open>Delete\<close> changes nothing in the store.
\<close>

theorem story_operations_frame:
  "(CreateComment client h t story = Some ((r, e), h', client') \<longrightarrow>
      tasks h' = tasks h \<and> take (length (stories h)) (stories h') = stories h
      \<and> r = length (stories h) \<and> length (stories h') = Suc (length (stories h))
      \<and> stories h' ! r =
          data (respond client (calls client)
                  (POST (''/tasks/'' @ Task_ID (tasks h ! t) @ ''/stories'') story)))
   \<and> (UpdateStory client h s story = Some ((r, e), h', client') \<longrightarrow>
      tasks h' = tasks h \<and> take (length (stories h)) (stories h') = stories h
      \<and> stories h' ! s = stories h ! s \<and> r \<noteq> s
      \<and> r = length (stories h) \<and> length (stories h') = Suc (length (stories h))
      \<and> stories h' ! r =
          data (respond client (calls client) (PUT (''/stories/'' @ Story_ID (stories h ! s)) story)))
   \<and> (Delete client h s = Some (e, h', client') \<longrightarrow> h' = h)"
proof -
  have 1: "tasks h' = tasks h \<and> take (length (stories h)) (stories h') = stories h
      \<and> r = length (stories h) \<and> length (stories h') = Suc (length (stories h))
      \<and> stories h' ! r =
          data (respond client (calls client)
                  (POST (''/tasks/'' @ Task_ID (tasks h ! t) @ ''/stories'') story))"
    if a: "CreateComment client h t story = Some ((r, e), h', client')"
  proof -
    from a have t: "t < length (tasks h)"
      by (simp add: CreateComment_def split: if_splits)
    from a t have h': "h' = h\<lparr>stories := stories h @
          [data (respond client (calls client)
                  (POST (''/tasks/'' @ Task_ID (tasks h ! t) @ ''/stories'') story))]\<rparr>"
      and r: "r = length (stories h)"
      by (auto simp add: CreateComment_def roundtrip_def Let_def)
    show ?thesis by (simp add: h' r)
  qed
  have 2: "tasks h' = tasks h \<and> take (length (stories h)) (stories h') = stories h
      \<and> stories h' ! s = stories h ! s \<and> r \<noteq> s
      \<and> r = length (stories h) \<and> length (stories h') = Suc (length (stories h))
      \<and> stories h' ! r =
          data (respond client (calls client) (PUT (''/stories/'' @ Story_ID (stories h ! s)) story))"
    if a: "UpdateStory client h s story = Some ((r, e), h', client')"
  proof -
    from a have s: "s < length (stories h)"
      by (simp add: UpdateStory_def split: if_splits)
    from a s have h': "h' = h\<lparr>stories := stories h @
          [data (respond client (calls client) (PUT (''/stories/'' @ Story_ID (stories h ! s)) story))]\<rparr>"
      and r: "r = length (stories h)"
      by (auto simp add: UpdateStory_def roundtrip_def Let_def nth_append)
    show ?thesis using s by (simp add: h' r nth_append)
  qed
  have 3: "h' = h" if "Delete client h s = Some (e, h', client')"
    using that by (auto simp add: Delete_def roundtrip_def split: if_splits)
  from 1 2 3 show ?thesis by blast
qed

text \<open>
  A store with one task and one story, and a transport that answers every request with
  the story 99.
\<close>

theorem story_operations_frame_witness:
  "CreateComment (scripted [] (page (zero_Story\<lparr>Story_ID := ''99''\<rparr>) None))
       \<lparr>tasks = [\<lparr>Task_ID = ''12'', Task_Name = ''Ship''\<rparr>], stories = [zero_Story\<lparr>Story_ID := ''55''\<rparr>]\<rparr>
       0 (Some \<lparr>Text = ''done'', HTMLText = [], IsPinned = False\<rparr>)
     = Some ((1, None),
         \<lparr>tasks = [\<lparr>Task_ID = ''12'', Task_Name = ''Ship''\<rparr>],
          stories = [zero_Story\<lparr>Story_ID := ''55''\<rparr>, zero_Story\<lparr>Story_ID := ''99''\<rparr>]\<rparr>,
         \<lparr>calls = [POST ''/tasks/12/stories'' (Some \<lparr>Text = ''done'', HTMLText = [], IsPinned = False\<rparr>)],
          respond = scripted_respond [] (page (zero_Story\<lparr>Story_ID := ''99''\<rparr>) None)\<rparr>)
   \<and> UpdateStory (scripted [] (page (zero_Story\<lparr>Story_ID := ''99''\<rparr>) None))
       \<lparr>tasks = [\<lparr>Task_ID = ''12'', Task_Name = ''Ship''\<rparr>], stories = [zero_Story\<lparr>Story_ID := ''55''\<rparr>]\<rparr>
       0 (Some \<lparr>Text = ''done'', HTMLText = [], IsPinned = False\<rparr>)
     = Some ((1, None),
         \<lparr>tasks = [\<lparr>Task_ID = ''12'', Task_Name = ''Ship''\<rparr>],
          stories = [zero_Story\<lparr>Story_ID := ''55''\<rparr>, zero_Story\<lparr>Story_ID := ''99''\<rparr>]\<rparr>,
         \<lparr>calls = [PUT ''/stories/55'' (Some \<lparr>Text = ''done'', HTMLText = [], IsPinned = False\<rparr>)],
          respond = scripted_respond [] (page (zero_Story\<lparr>Story_ID := ''99''\<rparr>) None)\<rparr>)
   \<and> Delete (scripted [] (page (zero_Story\<lparr>Story_ID := ''99''\<rparr>) None))
       \<lparr>tasks = [\<lparr>Task_ID = ''12'', Task_Name = ''Ship''\<rparr>], stories = [zero_Story\<lparr>Story_ID := ''55''\<rparr>]\<rparr> 0
     = Some (None,
         \<lparr>tasks = [\<lparr>Task_ID = ''12'', Task_Name = ''Ship''\<rparr>], stories = [zero_Story\<lparr>Story_ID := ''55''\<rparr>]\<rparr>,
         \<lparr>calls = [DELETE ''/stories/55''],
          respond = scripted_respond [] (page (zero_Story\<lparr>Story_ID := ''99''\<rparr>) None)\<rparr>)
   \<and> [zero_Story\<lparr>Story_ID := ''55''\<rparr>, zero_Story\<lparr>Story_ID := ''99''\<rparr>] ! 0 = zero_Story\<lparr>Story_ID := ''55''\<rparr>
   \<and> (1::nat) \<noteq> 0"
proof -
  let ?c = "scripted [] (page (zero_Story\<lparr>Story_ID := ''99''\<rparr>) None)"
  let ?h = "\<lparr>tasks = [\<lparr>Task_ID = ''12'', Task_Name = ''Ship''\<rparr>], stories = [zero_Story\<lparr>Story_ID := ''55''\<rparr>]\<rparr>"
  let ?h' = "\<lparr>tasks = [\<lparr>Task_ID = ''12'', Task_Name = ''Ship''\<rparr>],
          stories = [zero_Story\<lparr>Story_ID := ''55''\<rparr>, zero_Story\<lparr>Story_ID := ''99''\<rparr>]\<rparr>"
  let ?b = "Some \<lparr>Text = ''done'', HTMLText = [], IsPinned = False\<rparr>"
  have a: "CreateComment ?c ?h 0 ?b = Some ((1, None), ?h',
         \<lparr>calls = [POST ''/tasks/12/stories'' ?b],
          respond = scripted_respond [] (page (zero_Story\<lparr>Story_ID := ''99''\<rparr>) None)\<rparr>)"
    by (simp add: CreateComment_def roundtrip_def scripted_def scripted_respond_def page_def Let_def)
  have b: "UpdateStory ?c ?h 0 ?b = Some ((1, None), ?h',
         \<lparr>calls = [PUT ''/stories/55'' ?b],
          respond = scripted_respond [] (page (zero_Story\<lparr>Story_ID := ''99''\<rparr>) None)\<rparr>)"
    by (simp add: UpdateStory_def roundtrip_def scripted_def scripted_respond_def page_def Let_def)
  have c: "Delete ?c ?h 0 = Some (None, ?h,
         \<lparr>calls = [DELETE ''/stories/55''],
          respond = scripted_respond [] (page (zero_Story\<lparr>Story_ID := ''99''\<rparr>) None)\<rparr>)"
    by (simp add: Delete_def roundtrip_def scripted_def scripted_respond_def page_def)
  from story_operations_frame [THEN conjunct2, THEN conjunct1, rule_format, OF b]
  have "stories ?h' ! 0 = stories ?h ! 0 \<and> (1::nat) \<noteq> 0" by blast
  with a b c show ?thesis by simp
qed

section \<open>The JSON round trip of a story\<close>

lemma story_keys_distinct: "distinct story_keys"
  by (simp add: story_keys_def)

text \<open>Looking a key up in an object put together from the members of the fields.\<close>

lemma lookup_append:
  "lookup (a @ b) k = (case lookup b k of None \<Rightarrow> lookup a k | Some v \<Rightarrow> Some v)"
  by (simp add: lookup_def map_add_def split: option.splits)

lemma lookup_Nil: "lookup [] k = None"
  by (simp add: lookup_def)

lemma lookup_other:
  "k' \<noteq> k \<Longrightarrow> lookup (bool_field k b) k' = None"
  "k' \<noteq> k \<Longrightarrow> lookup (string_field k s) k' = None"
  "k' \<noteq> k \<Longrightarrow> lookup (float_field k x) k' = None"
  "k' \<noteq> k \<Longrightarrow> lookup (int32_field k w) k' = None"
  "k' \<noteq> k \<Longrightarrow> lookup (pointer_field k p) k' = None"
  "k' \<noteq> k \<Longrightarrow> lookup (slice_field k sl) k' = None"
  "k' \<noteq> k \<Longrightarrow> lookup (dates_field k d) k' = None"
  by (simp_all add: lookup_def bool_field_def string_field_def float_field_def int32_field_def
      pointer_field_def slice_field_def dates_field_def split: option.splits)

lemma decode_bool_field: "decode_bool (lookup (bool_field k b) k) = Some b"
  by (simp add: lookup_def bool_field_def decode_bool_def)

lemma coerce_utf8_Nil: "coerce_utf8 [] = []"
  by (simp add: coerce_utf8.simps)

lemma decode_string_field:
  "decode_string (lookup (string_field k s) k) = Some (coerce_utf8 s)"
  by (simp add: lookup_def string_field_def decode_string_def coerce_utf8_Nil)

lemma decode_float_field: "decode_float (lookup (float_field k x) k) = Some x"
  by (simp add: lookup_def float_field_def decode_float_def)

lemma decode_int32_field: "decode_int32 (lookup (int32_field k w) k) = Some w"
proof -
  have "- 2147483648 \<le> sint w" using sint_ge [of w] by simp
  moreover have "sint w \<le> 2147483647" using sint_lt [of w] by simp
  moreover have "(word_of_int (sint w) :: 32 word) = w" by simp
  ultimately show ?thesis
    by (simp add: lookup_def int32_field_def decode_int32_def del: of_int_sint)
qed

lemma decode_pointer_field:
  "decode_pointer (lookup (pointer_field k p) k) = Some (if p = Some JNull then None else p)"
  by (cases p) (simp_all add: lookup_def pointer_field_def decode_pointer_def split: json.splits)

lemma decode_slice_field:
  "decode_slice (lookup (slice_field k s) k) = Some (if elems s = [] then None else Some (elems s))"
  by (simp add: lookup_def slice_field_def decode_slice_def)

lemma case_option_same: "(case x of None \<Rightarrow> None | Some v \<Rightarrow> Some v) = x"
  by (cases x) simp_all

lemma pointer_field_None: "pointer_field k None = []"
  by (simp add: pointer_field_def)

lemma dates_field_None: "dates_field k None = []"
  by (simp add: dates_field_def)

lemma string_field_Nil: "string_field k [] = []"
  by (simp add: string_field_def)

lemma bool_field_False: "bool_field k False = []"
  by (simp add: bool_field_def)

lemma float_field_zero: "float_field k 0 = []"
  by (simp add: float_field_def)

lemma members_only_names:
  "members_StorySubtypeFields (only_names a b) =
     string_field ''old_name'' a @ string_field ''new_name'' b"
  by (simp add: members_StorySubtypeFields_def only_names_def zero_StorySubtypeFields_def
      pointer_field_None dates_field_None string_field_Nil bool_field_False float_field_zero)

lemma decode_absent:
  "decode_bool None = Some False" "decode_string None = Some []" "decode_float None = Some 0"
  "decode_pointer None = Some None" "decode_dates None = Some None"
  by (simp_all add: decode_bool_def decode_string_def decode_float_def decode_pointer_def
      decode_dates_def)

lemma lookup_append_left: "lookup b k = None \<Longrightarrow> lookup (a @ b) k = lookup a k"
  by (simp add: lookup_append)

lemma lookup_append_right: "lookup a k = None \<Longrightarrow> lookup (a @ b) k = lookup b k"
  by (simp add: lookup_append case_option_same split: option.splits)

lemmas lookup_segments = lookup_append_right lookup_append_left lookup_other lookup_Nil

lemma unmarshal_subtype_only_names:
  "unmarshal_StorySubtypeFields
     (string_field ''gid'' (Story_ID s)
        @ members_StoryBase (StoryBase s)
        @ pointer_field ''created_at'' (CreatedAt s)
        @ bool_field ''liked'' (Liked s)
        @ slice_field ''likes'' (Likes s)
        @ int32_field ''num_likes'' (NumLikes s)
        @ pointer_field ''created_by'' (CreatedBy s)
        @ pointer_field ''target'' (Target s)
        @ string_field ''source'' (Source s)
        @ string_field ''resource_subtype'' (ResourceSubtype s)
        @ string_field ''old_name'' a @ string_field ''new_name'' b)
     = Some (only_names (coerce_utf8 a) (coerce_utf8 b))"
  unfolding unmarshal_StorySubtypeFields_def members_StoryBase_def
  by (simp add: lookup_segments decode_string_field decode_absent
      only_names_def zero_StorySubtypeFields_def)


lemma unmarshal_base_members:
  "unmarshal_StoryBase
     (string_field ''gid'' (Story_ID s)
        @ members_StoryBase (StoryBase s)
        @ pointer_field ''created_at'' (CreatedAt s)
        @ bool_field ''liked'' (Liked s)
        @ slice_field ''likes'' (Likes s)
        @ int32_field ''num_likes'' (NumLikes s)
        @ pointer_field ''created_by'' (CreatedBy s)
        @ pointer_field ''target'' (Target s)
        @ string_field ''source'' (Source s)
        @ string_field ''resource_subtype'' (ResourceSubtype s)
        @ string_field ''old_name'' a @ string_field ''new_name'' b)
     = Some \<lparr>Text = coerce_utf8 (Text (StoryBase s)),
             HTMLText = coerce_utf8 (HTMLText (StoryBase s)),
             IsPinned = IsPinned (StoryBase s)\<rparr>"
  unfolding unmarshal_StoryBase_def members_StoryBase_def
  by (simp add: lookup_segments decode_string_field decode_bool_field)

text \<open>
  C8. A story whose subtype fields are all at their zero value but for \<open>OldName\<close> and
  \<open>NewName\<close>: encoding and then decoding it succeeds, and in the story decoded every
  subtype field but the two names is at its zero value: false, nil, the empty string or
  zero. The keys of the tags are pairwise different, so no field of \<open>Story\<close> or
  \<open>StoryBase\<close> is read into a subtype field.
\<close>

theorem Story_names_round_trip:
  assumes "StorySubtypeFields s = only_names a b"
  shows "\<exists>s' a' b'. unmarshal_Story (marshal_Story s) = Some s'
     \<and> StorySubtypeFields s' =
         \<lparr>IsEdited = False, NewDates = None, OldDates = None, OldName = a', NewName = b',
          OldResourceSubtype = [], NewResourceSubtype = [], Story_ptr = None, Attachment = None,
          Assignee = None, Follower = None, OldSection = None, NewSection = None, Task = None,
          Project = None, Tag = None, OldTextValue = [], NewTextValue = [], OldNumberValue = 0,
          NewNumberValue = 0, OldEnumValue = None, NewEnumValue = None, DuplicateOf = None,
          DuplicatedFrom = None, Dependency = None\<rparr>"
proof -
  have m: "marshal_Story s = JObject
     (string_field ''gid'' (Story_ID s)
        @ members_StoryBase (StoryBase s)
        @ pointer_field ''created_at'' (CreatedAt s)
        @ bool_field ''liked'' (Liked s)
        @ slice_field ''likes'' (Likes s)
        @ int32_field ''num_likes'' (NumLikes s)
        @ pointer_field ''created_by'' (CreatedBy s)
        @ pointer_field ''target'' (Target s)
        @ string_field ''source'' (Source s)
        @ string_field ''resource_subtype'' (ResourceSubtype s)
        @ string_field ''old_name'' a @ string_field ''new_name'' b)"
    by (simp add: marshal_Story_def assms members_only_names)
  have u: "unmarshal_Story (marshal_Story s) =
           Some \<lparr>Story_ID = coerce_utf8 (Story_ID s),
                 StoryBase = \<lparr>Text = coerce_utf8 (Text (StoryBase s)),
                              HTMLText = coerce_utf8 (HTMLText (StoryBase s)),
                              IsPinned = IsPinned (StoryBase s)\<rparr>,
                 CreatedAt = (if CreatedAt s = Some JNull then None else CreatedAt s),
                 Liked = Liked s,
                 Likes = (if elems (Likes s) = [] then None else Some (elems (Likes s))),
                 NumLikes = NumLikes s,
                 CreatedBy = (if CreatedBy s = Some JNull then None else CreatedBy s),
                 Target = (if Target s = Some JNull then None else Target s),
                 Source = coerce_utf8 (Source s),
                 ResourceSubtype = coerce_utf8 (ResourceSubtype s),
                 StorySubtypeFields = only_names (coerce_utf8 a) (coerce_utf8 b)\<rparr>"
    unfolding m unmarshal_Story_def json.case unmarshal_subtype_only_names unmarshal_base_members
    unfolding members_StoryBase_def
    by (simp add: lookup_segments decode_string_field decode_bool_field decode_pointer_field
        decode_slice_field decode_int32_field)
  have n: "only_names (coerce_utf8 a) (coerce_utf8 b) =
         \<lparr>IsEdited = False, NewDates = None, OldDates = None, OldName = coerce_utf8 a,
          NewName = coerce_utf8 b,
          OldResourceSubtype = [], NewResourceSubtype = [], Story_ptr = None, Attachment = None,
          Assignee = None, Follower = None, OldSection = None, NewSection = None, Task = None,
          Project = None, Tag = None, OldTextValue = [], NewTextValue = [], OldNumberValue = 0,
          NewNumberValue = 0, OldEnumValue = None, NewEnumValue = None, DuplicateOf = None,
          DuplicatedFrom = None, Dependency = None\<rparr>"
    by (simp add: only_names_def zero_StorySubtypeFields_def)
  show ?thesis
    unfolding u by (simp add: n)
qed

text \<open>
  A story of the subtype \<open>name_changed\<close>, renamed from Draft to Final: the object it is
  encoded to, and the story decoded from it, which is the story encoded.
\<close>

theorem Story_names_round_trip_witness:
  "StorySubtypeFields
     (zero_Story\<lparr>Story_ID := ''55'', ResourceSubtype := ''name_changed'',
                 StorySubtypeFields := only_names ''Draft'' ''Final''\<rparr>)
     = only_names ''Draft'' ''Final''
   \<and> marshal_Story
        (zero_Story\<lparr>Story_ID := ''55'', ResourceSubtype := ''name_changed'',
                    StorySubtypeFields := only_names ''Draft'' ''Final''\<rparr>)
     = JObject [(''gid'', JString ''55''), (''resource_subtype'', JString ''name_changed''),
                (''old_name'', JString ''Draft''), (''new_name'', JString ''Final'')]
   \<and> unmarshal_Story (marshal_Story
        (zero_Story\<lparr>Story_ID := ''55'', ResourceSubtype := ''name_changed'',
                    StorySubtypeFields := only_names ''Draft'' ''Final''\<rparr>))
     = Some (zero_Story\<lparr>Story_ID := ''55'', ResourceSubtype := ''name_changed'',
                        StorySubtypeFields := only_names ''Draft'' ''Final''\<rparr>)
   \<and> only_names ''Draft'' ''Final'' =
         \<lparr>IsEdited = False, NewDates = None, OldDates = None, OldName = ''Draft'',
          NewName = ''Final'',
          OldResourceSubtype = [], NewResourceSubtype = [], Story_ptr = None, Attachment = None,
          Assignee = None, Follower = None, OldSection = None, NewSection = None, Task = None,
          Project = None, Tag = None, OldTextValue = [], NewTextValue = [], OldNumberValue = 0,
          NewNumberValue = 0, OldEnumValue = None, NewEnumValue = None, DuplicateOf = None,
          DuplicatedFrom = None, Dependency = None\<rparr>"
proof -
  let ?s = "zero_Story\<lparr>Story_ID := ''55'', ResourceSubtype := ''name_changed'',
                 StorySubtypeFields := only_names ''Draft'' ''Final''\<rparr>"
  have h: "StorySubtypeFields ?s = only_names ''Draft'' ''Final''"
    by simp
  have c: "coerce_utf8 ''55'' = ''55''" "coerce_utf8 ''name_changed'' = ''name_changed''"
    "coerce_utf8 ''Draft'' = ''Draft''" "coerce_utf8 ''Final'' = ''Final''"
    by (simp_all add: coerce_utf8.simps byte_in_def)
  have m: "marshal_Story ?s
     = JObject [(''gid'', JString ''55''), (''resource_subtype'', JString ''name_changed''),
                (''old_name'', JString ''Draft''), (''new_name'', JString ''Final'')]"
    by (simp add: marshal_Story_def members_only_names members_StoryBase_def zero_Story_def
        string_field_def bool_field_def pointer_field_def slice_field_def int32_field_def elems_def c)
  have u: "unmarshal_Story (marshal_Story ?s) = Some ?s"
    unfolding m
    by (simp add: unmarshal_Story_def unmarshal_StoryBase_def unmarshal_StorySubtypeFields_def
        lookup_def decode_string_def decode_bool_def decode_float_def decode_int32_def
        decode_pointer_def decode_slice_def decode_dates_def zero_Story_def only_names_def
        zero_StorySubtypeFields_def)
  from Story_names_round_trip [OF h] obtain s' a' b' where
    1: "unmarshal_Story (marshal_Story ?s) = Some s'" and
    2: "StorySubtypeFields s' =
         \<lparr>IsEdited = False, NewDates = None, OldDates = None, OldName = a', NewName = b',
          OldResourceSubtype = [], NewResourceSubtype = [], Story_ptr = None, Attachment = None,
          Assignee = None, Follower = None, OldSection = None, NewSection = None, Task = None,
          Project = None, Tag = None, OldTextValue = [], NewTextValue = [], OldNumberValue = 0,
          NewNumberValue = 0, OldEnumValue = None, NewEnumValue = None, DuplicateOf = None,
          DuplicatedFrom = None, Dependency = None\<rparr>"
    by blast
  from 1 u have "s' = ?s" by simp
  with 2 h have 3: "only_names ''Draft'' ''Final'' =
         \<lparr>IsEdited = False, NewDates = None, OldDates = None, OldName = a', NewName = b',
          OldResourceSubtype = [], NewResourceSubtype = [], Story_ptr = None, Attachment = None,
          Assignee = None, Follower = None, OldSection = None, NewSection = None, Task = None,
          Project = None, Tag = None, OldTextValue = [], NewTextValue = [], OldNumberValue = 0,
          NewNumberValue = 0, OldEnumValue = None, NewEnumValue = None, DuplicateOf = None,
          DuplicatedFrom = None, Dependency = None\<rparr>"
    by simp
  from 3 have "OldName (only_names ''Draft'' ''Final'') = a'" "NewName (only_names ''Draft'' ''Final'') = b'"
    by simp_all
  then have "a' = ''Draft''" "b' = ''Final''"
    by (simp_all add: only_names_def)
  with 3 have 4: "only_names ''Draft'' ''Final'' =
         \<lparr>IsEdited = False, NewDates = None, OldDates = None, OldName = ''Draft'',
          NewName = ''Final'',
          OldResourceSubtype = [], NewResourceSubtype = [], Story_ptr = None, Attachment = None,
          Assignee = None, Follower = None, OldSection = None, NewSection = None, Task = None,
          Project = None, Tag = None, OldTextValue = [], NewTextValue = [], OldNumberValue = 0,
          NewNumberValue = 0, OldEnumValue = None, NewEnumValue = None, DuplicateOf = None,
          DuplicatedFrom = None, Dependency = None\<rparr>"
    by simp
  from h m u 4 show ?thesis by (intro conjI)
qed

end
